theory Spec2Isabelle
  imports Main "HOL-Library.Sublist"
begin

section \<open>Data model\<close>

text \<open>
  The chat client keeps its conversations in \<^verbatim>\<open>ChatManager.sessions\<close>, a Python dict
  from session names to lists of message dicts, and the name of the active session in
  \<^verbatim>\<open>ChatManager.current_session\<close> (\<^verbatim>\<open>src/core/chat_manager.py\<close>).

  A message dict has the keys \<^verbatim>\<open>role\<close>, \<^verbatim>\<open>content\<close> and \<^verbatim>\<open>timestamp\<close>; the dicts handed
  to the API have only \<^verbatim>\<open>role\<close> and \<^verbatim>\<open>content\<close>. The second is a record, the first its
  extension by the timestamp. Python strings are modelled as \<open>string\<close>.
\<close>

record api_message =
  role :: string
  content :: string

record message = api_message +
  timestamp :: string

text \<open>
  The exceptions (subclasses of Python's \<^verbatim>\<open>Exception\<close>) that the modelled code raises,
  catches or lets through, each with the text that \<^verbatim>\<open>str(e)\<close> gives. \<^verbatim>\<open>IOError\<close> is
  Python's alias of \<^verbatim>\<open>OSError\<close>; \<^verbatim>\<open>JSONDecodeError\<close> and \<^verbatim>\<open>UnicodeDecodeError\<close> are two
  unrelated subclasses of \<^verbatim>\<open>ValueError\<close>; \<^verbatim>\<open>MarkupError\<close> is what the rich console raises
  for a text whose markup it cannot parse; \<^verbatim>\<open>OtherException\<close> stands for every other class.
\<close>

datatype py_exn =
    IOError string
  | JSONDecodeError string
  | UnicodeDecodeError string
  | KeyError string
  | IndexError string
  | APIError string
  | RuntimeError string
  | MarkupError string
  | OtherException string

fun exn_str :: "py_exn \<Rightarrow> string" where
  "exn_str (IOError m) = m"
| "exn_str (JSONDecodeError m) = m"
| "exn_str (UnicodeDecodeError m) = m"
| "exn_str (KeyError m) = m"
| "exn_str (IndexError m) = m"
| "exn_str (APIError m) = m"
| "exn_str (RuntimeError m) = m"
| "exn_str (MarkupError m) = m"
| "exn_str (OtherException m) = m"

type_synonym session_map = "string \<rightharpoonup> message list"

record ChatManager =
  history_file :: string
  sessions :: session_map
  current_session :: string

text \<open>
  What a method does to the outside world, in the order it does it: a text or a rendered
  Markdown on the rich console, a \<^verbatim>\<open>print\<close> to standard output, the attempt to open a file
  for writing and \<^verbatim>\<open>json.dump\<close> a session mapping into it, and the request made of the
  chat-completion endpoint (the messages sent and the \<^verbatim>\<open>stream\<close> flag).
\<close>

datatype event =
    ConsolePrint string
  | ConsoleMarkdown string
  | StdoutPrint string
  | SaveAttempt string session_map
  | ApiRequest "api_message list" bool

text \<open>The constants of \<^verbatim>\<open>src/config/config.py\<close>.\<close>

definition MAX_CONTEXT_MESSAGES :: nat where
  "MAX_CONTEXT_MESSAGES = 20"

definition MAX_HISTORY_MESSAGES :: nat where
  "MAX_HISTORY_MESSAGES = 1000"

text \<open>
  Python's slice \<^verbatim>\<open>xs[-n:]\<close> for a non-negative \<open>n\<close>: the last \<open>n\<close> elements, the whole list
  when it has fewer, and the whole list for \<open>n = 0\<close> (since \<^verbatim>\<open>-0\<close> is \<^verbatim>\<open>0\<close>).
\<close>

definition slice_last :: "nat \<Rightarrow> 'a list \<Rightarrow> 'a list" where
  "slice_last n xs = (if n = 0 then xs else drop (length xs - n) xs)"

section \<open>The chat manager\<close>

text \<open>
  \<^verbatim>\<open>ChatManager._trim_history\<close>. Reading \<^verbatim>\<open>self.sessions[self.current_session]\<close> raises
  \<^verbatim>\<open>KeyError\<close> when the key is absent.
\<close>

definition trim_history :: "ChatManager \<Rightarrow> py_exn + ChatManager" where
  "trim_history s =
     (case sessions s (current_session s) of
        None \<Rightarrow> Inl (KeyError (current_session s))
      | Some xs \<Rightarrow>
          if length xs > MAX_HISTORY_MESSAGES * 2
          then Inr (s\<lparr>sessions := (sessions s)(current_session s \<mapsto> slice_last MAX_HISTORY_MESSAGES xs)\<rparr>)
          else Inr s)"

text \<open>
  \<^verbatim>\<open>ChatManager.add_message\<close>; \<open>now\<close> is the value of \<^verbatim>\<open>datetime.now().isoformat()\<close>.
\<close>

definition add_message :: "string \<Rightarrow> string \<Rightarrow> string \<Rightarrow> ChatManager \<Rightarrow> py_exn + ChatManager" where
  "add_message r c now s =
     (case sessions s (current_session s) of
        None \<Rightarrow> Inl (KeyError (current_session s))
      | Some xs \<Rightarrow>
          trim_history
            (s\<lparr>sessions := (sessions s)(current_session s \<mapsto>
                  xs @ [\<lparr>role = r, content = c, timestamp = now\<rparr>])\<rparr>))"

text \<open>The dict comprehension \<^verbatim>\<open>{"role": msg["role"], "content": msg["content"]}\<close>.\<close>

definition strip_timestamp :: "message \<Rightarrow> api_message" where
  "strip_timestamp msg = \<lparr>role = role msg, content = content msg\<rparr>"

text \<open>
  \<^verbatim>\<open>ChatManager.get_context\<close>: the returned list (or the \<^verbatim>\<open>KeyError\<close>) together with the
  manager as the call leaves it; the method assigns to nothing.
\<close>

definition get_context :: "ChatManager \<Rightarrow> (py_exn + api_message list) \<times> ChatManager" where
  "get_context s =
     (case sessions s (current_session s) of
        None \<Rightarrow> (Inl (KeyError (current_session s)), s)
      | Some xs \<Rightarrow> (Inr (map strip_timestamp (slice_last MAX_CONTEXT_MESSAGES xs)), s))"

text \<open>
  \<^verbatim>\<open>ChatManager.save_history\<close>. The first argument is what opening the file and dumping
  into it raises, \<open>None\<close> when the write goes through. Only \<^verbatim>\<open>IOError\<close> is caught. The
  result is the exception that leaves the method, the manager and the events.
\<close>

fun save_history :: "py_exn option \<Rightarrow> ChatManager \<Rightarrow> py_exn option \<times> ChatManager \<times> event list" where
  "save_history None s = (None, s, [SaveAttempt (history_file s) (sessions s)])"
| "save_history (Some (IOError m)) s =
     (None, s, [SaveAttempt (history_file s) (sessions s),
                ConsolePrint (''[red]Error saving history: '' @ m @ ''[/red]'')])"
| "save_history (Some e) s = (Some e, s, [SaveAttempt (history_file s) (sessions s)])"

text \<open>
  What reading the history file gives: the mapping that \<^verbatim>\<open>json.load\<close> returns, or the
  exception that \<^verbatim>\<open>open\<close> or \<^verbatim>\<open>json.load\<close> raises. The mapping has the type that
  \<^verbatim>\<open>self.sessions\<close> is annotated with; a JSON document of another shape is not modelled.
\<close>

datatype read_result = Parsed session_map | ReadRaises py_exn

text \<open>
  \<^verbatim>\<open>ChatManager.load_history\<close>. The first argument is \<^verbatim>\<open>os.path.exists(self.history_file)\<close>.
  The handler is \<^verbatim>\<open>except (IOError, json.JSONDecodeError)\<close>.
\<close>

fun load_history :: "bool \<Rightarrow> read_result \<Rightarrow> ChatManager \<Rightarrow> py_exn option \<times> ChatManager \<times> event list" where
  "load_history False rd s = (None, s, [])"
| "load_history True (Parsed m) s = (None, s\<lparr>sessions := m\<rparr>, [])"
| "load_history True (ReadRaises (IOError m)) s =
     (None, s\<lparr>sessions := [''default'' \<mapsto> []]\<rparr>,
      [ConsolePrint (''[red]Error loading history: '' @ m @ ''[/red]'')])"
| "load_history True (ReadRaises (JSONDecodeError m)) s =
     (None, s\<lparr>sessions := [''default'' \<mapsto> []]\<rparr>,
      [ConsolePrint (''[red]Error loading history: '' @ m @ ''[/red]'')])"
| "load_history True (ReadRaises e) s = (Some e, s, [])"

text \<open>
  \<^verbatim>\<open>ChatManager.__init__\<close>; \<open>stamp\<close> is \<^verbatim>\<open>datetime.now().strftime('%Y%m%d_%H%M%S')\<close>. While
  \<^verbatim>\<open>load_history\<close> runs the attribute \<^verbatim>\<open>current_session\<close> does not exist yet; the record
  holds the empty string there, which \<open>load_history\<close> never reads. When \<open>load_history\<close>
  raises, so does the constructor.
\<close>

definition ChatManager_init :: "string \<Rightarrow> bool \<Rightarrow> read_result \<Rightarrow> string \<Rightarrow> py_exn option \<times> ChatManager \<times> event list" where
  "ChatManager_init file ex rd stamp =
     (case load_history ex rd \<lparr>history_file = file, sessions = Map.empty, current_session = []\<rparr> of
        (Some e, s, ev) \<Rightarrow> (Some e, s, ev)
      | (None, s, ev) \<Rightarrow>
          (None,
           s\<lparr>sessions := (sessions s)(''chat_'' @ stamp \<mapsto> []), current_session := ''chat_'' @ stamp\<rparr>,
           ev))"

text \<open>\<^verbatim>\<open>ChatManager.clear_history\<close>.\<close>

definition clear_history :: "py_exn option \<Rightarrow> ChatManager \<Rightarrow> py_exn option \<times> ChatManager \<times> event list" where
  "clear_history w s =
     (case save_history w (s\<lparr>sessions := (sessions s)(current_session s \<mapsto> [])\<rparr>) of
        (Some e, s', ev) \<Rightarrow> (Some e, s', ev)
      | (None, s', ev) \<Rightarrow> (None, s', ev @ [ConsolePrint ''[green]Chat history cleared.[/green]'']))"

text \<open>\<^verbatim>\<open>ChatManager.switch_session\<close>.\<close>

definition switch_session :: "string \<Rightarrow> ChatManager \<Rightarrow> ChatManager \<times> event list" where
  "switch_session session_name s =
     ((if sessions s session_name = None
       then s\<lparr>sessions := (sessions s)(session_name \<mapsto> [])\<rparr>
       else s)\<lparr>current_session := session_name\<rparr>,
      [ConsolePrint (''[green]Switched to session: '' @ session_name @ ''[/green]'')])"

text \<open>The apostrophe of the console texts.\<close>

definition apostrophe :: string where
  "apostrophe = [CHR 0x27]"

text \<open>\<^verbatim>\<open>ChatManager.delete_session\<close>.\<close>

definition delete_session :: "py_exn option \<Rightarrow> string \<Rightarrow> ChatManager \<Rightarrow> py_exn option \<times> ChatManager \<times> event list" where
  "delete_session w session_name s =
     (if sessions s session_name = None
      then (None, s,
            [ConsolePrint (''[red]Session '' @ apostrophe @ session_name @ apostrophe @ '' not found.[/red]'')])
      else if session_name = current_session s
      then (None, s,
            [ConsolePrint ''[red]Cannot delete current session. Switch to another session first.[/red]''])
      else
        (case save_history w (s\<lparr>sessions := (sessions s)(session_name := None)\<rparr>) of
           (Some e, s', ev) \<Rightarrow> (Some e, s', ev)
         | (None, s', ev) \<Rightarrow>
             (None, s',
              ev @ [ConsolePrint (''[green]Session '' @ apostrophe @ session_name @ apostrophe @ '' deleted.[/green]'')])))"

text \<open>
  \<^verbatim>\<open>ChatManager.rename_session\<close>. In \<^verbatim>\<open>self.sessions[new_name] = self.sessions.pop(old_name)\<close>
  the right-hand side runs first: the old key is removed, then its list is stored under the
  new key.
\<close>

definition rename_session :: "py_exn option \<Rightarrow> string \<Rightarrow> string \<Rightarrow> ChatManager \<Rightarrow> py_exn option \<times> ChatManager \<times> event list" where
  "rename_session w old_name new_name s =
     (case sessions s old_name of
        None \<Rightarrow>
          (None, s,
           [ConsolePrint (''[red]Session '' @ apostrophe @ old_name @ apostrophe @ '' not found.[/red]'')])
      | Some msgs \<Rightarrow>
          if sessions s new_name \<noteq> None
          then (None, s,
                [ConsolePrint (''[red]Session '' @ apostrophe @ new_name @ apostrophe @ '' already exists.[/red]'')])
          else
            (case save_history w
                    ((s\<lparr>sessions := ((sessions s)(old_name := None))(new_name \<mapsto> msgs)\<rparr>)
                       \<lparr>current_session := (if current_session s = old_name then new_name else current_session s)\<rparr>) of
               (Some e, s', ev) \<Rightarrow> (Some e, s', ev)
             | (None, s', ev) \<Rightarrow>
                 (None, s',
                  ev @ [ConsolePrint (''[green]Session renamed from '' @ apostrophe @ old_name @ apostrophe
                                      @ '' to '' @ apostrophe @ new_name @ apostrophe @ ''.[/green]'')])))"

subsection \<open>Runs of appends and the invariant\<close>

text \<open>
  A run of \<^verbatim>\<open>add_message\<close> calls, one per triple of role, content and time stamp, stopping
  at the first exception; \<open>mk_message\<close> is the dict that a call builds.
\<close>

definition mk_message :: "string \<times> string \<times> string \<Rightarrow> message" where
  "mk_message a = (case a of (r, c, now) \<Rightarrow> \<lparr>role = r, content = c, timestamp = now\<rparr>)"

fun add_messages :: "(string \<times> string \<times> string) list \<Rightarrow> ChatManager \<Rightarrow> py_exn + ChatManager" where
  "add_messages [] s = Inr s"
| "add_messages ((r, c, now) # ms) s =
     (case add_message r c now s of Inl e \<Rightarrow> Inl e | Inr s' \<Rightarrow> add_messages ms s')"

text \<open>
  The invariant of the session store: \<^verbatim>\<open>current_session\<close> is a key of \<^verbatim>\<open>sessions\<close>.
\<close>

definition current_session_exists :: "ChatManager \<Rightarrow> bool" where
  "current_session_exists s = (sessions s (current_session s) \<noteq> None)"

section \<open>The API client\<close>

text \<open>
  One step of iterating the streaming response: a chunk, given by the
  \<^verbatim>\<open>delta.content\<close> of each of its \<^verbatim>\<open>choices\<close> (\<open>None\<close> for Python's \<^verbatim>\<open>None\<close>), or an exception
  raised by the iterator. The list ends where the iterator is exhausted.
\<close>

datatype stream_item = Chunk "string option list" | StreamRaises py_exn

definition newline :: string where
  "newline = [CHR 0x0A]"

text \<open>
  The rich console parses the text it is given as markup, and \<^verbatim>\<open>console.print\<close> raises
  \<^verbatim>\<open>MarkupError\<close> for a text it cannot parse (a closing tag that matches no open tag, for
  one). Where the code prints the text of an exception, that text decides whether the
  print goes through. The parser belongs to the rich library, so it is a parameter \<open>rich\<close>
  of the functions below: \<open>rich text\<close> is \<open>None\<close> when the console renders \<open>text\<close>, and
  otherwise the message of the \<^verbatim>\<open>MarkupError\<close> raised. The prints of the session manager
  above are recorded as events without this check; what its operations do to the sessions
  and to the history file does not depend on it.
\<close>

type_synonym console_markup = "string \<Rightarrow> string option"

text \<open>
  The handler \<^verbatim>\<open>except Exception as e\<close> of \<^verbatim>\<open>LLMClient._handle_stream\<close>, for an exception with
  text \<open>msg\<close>: it prints the stream error and falls through to \<^verbatim>\<open>return full_response\<close>;
  when the print raises, that exception leaves the method and nothing is returned.
\<close>

definition stream_handler :: "console_markup \<Rightarrow> string \<Rightarrow> string \<Rightarrow> event list \<Rightarrow> (py_exn + string) \<times> event list" where
  "stream_handler rich msg full_response ev =
     (case rich (newline @ ''[red]Stream error: '' @ msg @ ''[/red]'') of
        None \<Rightarrow>
          (Inr full_response, ev @ [ConsolePrint (newline @ ''[red]Stream error: '' @ msg @ ''[/red]'')])
      | Some m \<Rightarrow> (Inl (MarkupError m), ev))"

text \<open>
  The loop of \<^verbatim>\<open>LLMClient._handle_stream\<close>, with \<^verbatim>\<open>full_response\<close> and the events so far as
  accumulators. \<^verbatim>\<open>chunk.choices[0]\<close> raises \<^verbatim>\<open>IndexError\<close> on a chunk without choices. Every
  exception ends the loop in the handler; an exhausted iterator ends it with \<^verbatim>\<open>print()\<close> and
  \<^verbatim>\<open>return full_response\<close>.
\<close>

fun handle_stream_loop :: "console_markup \<Rightarrow> stream_item list \<Rightarrow> string \<Rightarrow> event list \<Rightarrow> (py_exn + string) \<times> event list" where
  "handle_stream_loop rich [] full_response ev = (Inr full_response, ev @ [StdoutPrint newline])"
| "handle_stream_loop rich (StreamRaises e # rest) full_response ev =
     stream_handler rich (exn_str e) full_response ev"
| "handle_stream_loop rich (Chunk [] # rest) full_response ev =
     stream_handler rich ''list index out of range'' full_response ev"
| "handle_stream_loop rich (Chunk (None # cs) # rest) full_response ev =
     handle_stream_loop rich rest full_response ev"
| "handle_stream_loop rich (Chunk (Some c # cs) # rest) full_response ev =
     handle_stream_loop rich rest (full_response @ c) (ev @ [StdoutPrint c])"

definition handle_stream :: "console_markup \<Rightarrow> stream_item list \<Rightarrow> (py_exn + string) \<times> event list" where
  "handle_stream rich response = handle_stream_loop rich response [] []"

text \<open>
  How the remote service answers \<^verbatim>\<open>client.chat.completions.create\<close>: the exception the
  call raises (if any), and otherwise the \<^verbatim>\<open>message.content\<close> of each choice of the
  completion when \<^verbatim>\<open>stream\<close> is off, the items of the stream when it is on.
\<close>

record remote_service =
  create_raises :: "py_exn option"
  completion_choices :: "string list"
  stream_items :: "stream_item list"

text \<open>The two handlers of \<^verbatim>\<open>LLMClient.chat\<close>: \<^verbatim>\<open>APIError\<close> first, then \<^verbatim>\<open>Exception\<close>.\<close>

fun chat_reraise :: "py_exn \<Rightarrow> py_exn" where
  "chat_reraise (APIError m) = RuntimeError (''API Error: '' @ m)"
| "chat_reraise e = RuntimeError (''Unexpected error: '' @ exn_str e)"

text \<open>
  \<^verbatim>\<open>LLMClient.chat\<close>. An empty \<open>system_prompt\<close> is falsy, as \<^verbatim>\<open>None\<close> is. The result is the
  returned text or the exception raised, and the events. The call of \<^verbatim>\<open>_handle_stream\<close> is
  inside the \<^verbatim>\<open>try\<close>, so an exception that leaves it is raised again as \<^verbatim>\<open>RuntimeError\<close>.
\<close>

definition chat :: "console_markup \<Rightarrow> remote_service \<Rightarrow> api_message list \<Rightarrow> string \<Rightarrow> bool \<Rightarrow> (py_exn + string) \<times> event list" where
  "chat rich svc messages system_prompt stream =
     (let full_messages =
            (if system_prompt \<noteq> []
             then \<lparr>role = ''system'', content = system_prompt\<rparr> # messages
             else messages)
      in case create_raises svc of
           Some e \<Rightarrow> (Inl (chat_reraise e), [ApiRequest full_messages stream])
         | None \<Rightarrow>
             if stream
             then (case handle_stream rich (stream_items svc) of
                     (Inl e, ev) \<Rightarrow> (Inl (chat_reraise e), ApiRequest full_messages stream # ev)
                   | (Inr full_response, ev) \<Rightarrow> (Inr full_response, ApiRequest full_messages stream # ev))
             else (case completion_choices svc of
                     [] \<Rightarrow> (Inl (chat_reraise (IndexError ''list index out of range'')),
                            [ApiRequest full_messages stream])
                   | c # cs \<Rightarrow> (Inr c, [ApiRequest full_messages stream])))"

section \<open>The application\<close>

text \<open>
  The part of \<^verbatim>\<open>LLMCLIApp\<close> that \<^verbatim>\<open>send_message\<close> uses; \<open>llm_client\<close> tells whether the
  client object exists (it is \<^verbatim>\<open>None\<close> otherwise).
\<close>

record LLMCLIApp =
  chat_manager :: ChatManager
  llm_client :: bool
  system_prompt :: string
  streaming :: bool

text \<open>The two non-ASCII marks of the console texts, as the bytes of the source file.\<close>

definition thinking_mark :: string where
  "thinking_mark = [CHR 0xC3, CHR 0xB0, CHR 0xC5, CHR 0xB8, CHR 0xC2, CHR 0xA4, CHR 0xE2, CHR 0x80, CHR 0x9D]"

definition cross_mark :: string where
  "cross_mark = [CHR 0xC3, CHR 0xA2, CHR 0xC5, CHR 0x93, CHR 0xE2, CHR 0x80, CHR 0x94]"

text \<open>
  The body of the \<^verbatim>\<open>try\<close> block of \<^verbatim>\<open>LLMCLIApp.send_message\<close>, run on the manager that
  already holds the user's message, with the context computed from it. \<open>now\<close> is the time
  stamp of the assistant's message, \<open>w\<close> what the write of an auto-save raises.
\<close>

definition send_message_try ::
  "console_markup \<Rightarrow> remote_service \<Rightarrow> string \<Rightarrow> py_exn option \<Rightarrow> api_message list \<Rightarrow> LLMCLIApp
     \<Rightarrow> py_exn option \<times> LLMCLIApp \<times> event list" where
  "send_message_try rich svc now w messages a =
     (case chat rich svc messages (system_prompt a) (streaming a) of
        (Inl e, ev) \<Rightarrow> (Some e, a, ev)
      | (Inr response, ev) \<Rightarrow>
          (case add_message ''assistant'' response now (chat_manager a) of
             Inl e \<Rightarrow> (Some e, a, ev)
           | Inr m \<Rightarrow>
               (let shown =
                      (if \<not> streaming a
                       then [ConsolePrint ''[bold green]Assistant:[/bold green]'',
                             ConsoleMarkdown response, ConsolePrint []]
                       else [])
                in case sessions m (current_session m) of
                     None \<Rightarrow> (Some (KeyError (current_session m)), a\<lparr>chat_manager := m\<rparr>, ev @ shown)
                   | Some xs \<Rightarrow>
                       if length xs mod 4 = 0
                       then (case save_history w m of
                               (r, m', ev') \<Rightarrow> (r, a\<lparr>chat_manager := m'\<rparr>, ev @ shown @ ev'))
                       else (None, a\<lparr>chat_manager := m\<rparr>, ev @ shown))))"

text \<open>
  \<^verbatim>\<open>LLMCLIApp.send_message\<close>. \<open>now_user\<close> and \<open>now_assistant\<close> are the time stamps of the two
  \<^verbatim>\<open>add_message\<close> calls. The handler of the \<^verbatim>\<open>try\<close> block catches \<^verbatim>\<open>RuntimeError\<close> only,
  and prints its text; when that print raises, the exception leaves \<^verbatim>\<open>send_message\<close>.
\<close>

definition send_message ::
  "console_markup \<Rightarrow> remote_service \<Rightarrow> string \<Rightarrow> string \<Rightarrow> py_exn option \<Rightarrow> string \<Rightarrow> LLMCLIApp
     \<Rightarrow> py_exn option \<times> LLMCLIApp \<times> event list" where
  "send_message rich svc now_user now_assistant w user_input a =
     (if \<not> llm_client a
      then (None, a,
            [ConsolePrint ''[red]LLM client not initialized. Use /config to set up API key.[/red]''])
      else
        (case add_message ''user'' user_input now_user (chat_manager a) of
           Inl e \<Rightarrow> (Some e, a, [])
         | Inr m \<Rightarrow>
             (case get_context m of
                (Inl e, m') \<Rightarrow> (Some e, a\<lparr>chat_manager := m'\<rparr>, [])
              | (Inr messages, m') \<Rightarrow>
                  (case send_message_try rich svc now_assistant w messages (a\<lparr>chat_manager := m'\<rparr>) of
                     (Some (RuntimeError msg), a', ev) \<Rightarrow>
                       (case rich (''[red]'' @ cross_mark @ '' Error: '' @ msg @ ''[/red]'' @ newline) of
                          None \<Rightarrow>
                            (None, a',
                             ConsolePrint (newline @ ''[cyan]'' @ thinking_mark @ '' Thinking...[/cyan]'' @ newline)
                             # ev @ [ConsolePrint (''[red]'' @ cross_mark @ '' Error: '' @ msg @ ''[/red]'' @ newline)])
                        | Some m \<Rightarrow>
                            (Some (MarkupError m), a',
                             ConsolePrint (newline @ ''[cyan]'' @ thinking_mark @ '' Thinking...[/cyan]'' @ newline)
                             # ev))
                   | (r, a', ev) \<Rightarrow>
                       (r, a',
                        ConsolePrint (newline @ ''[cyan]'' @ thinking_mark @ '' Thinking...[/cyan]'' @ newline)
                        # ev)))))"

subsection \<open>Fragments and save events\<close>



text \<open>Whether an event is an attempt to write the history file.\<close>

fun is_save_attempt :: "event \<Rightarrow> bool" where
  "is_save_attempt (SaveAttempt f m) = True"
| "is_save_attempt e = False"

section \<open>Context window\<close>

lemma slice_last_length: "length (slice_last n xs) = (if n = 0 then length xs else min (length xs) n)"
  by (auto simp: slice_last_def)

lemma slice_last_suffix: "suffix (slice_last n xs) xs"
  by (simp add: slice_last_def suffix_drop)

text \<open>
  C3. For a current session holding the messages \<open>xs\<close>, \<open>get_context\<close> returns, in the
  stored (oldest first) order, one record for each message of the suffix of \<open>xs\<close> of length
  \<open>min (length xs) MAX_CONTEXT_MESSAGES\<close>, holding that message's own role and content and
  nothing else; the manager is left as it was, and a second call returns the same.
\<close>

theorem get_context_window:
  assumes "sessions s (current_session s) = Some xs"
  shows "get_context s =
           (Inr (map (\<lambda>msg. \<lparr>role = role msg, content = content msg\<rparr>)
                   (drop (length xs - min (length xs) MAX_CONTEXT_MESSAGES) xs)), s)
       \<and> suffix (drop (length xs - min (length xs) MAX_CONTEXT_MESSAGES) xs) xs
       \<and> length (drop (length xs - min (length xs) MAX_CONTEXT_MESSAGES) xs) = min (length xs) MAX_CONTEXT_MESSAGES
       \<and> get_context (snd (get_context s)) = get_context s"
proof -
  have w: "slice_last MAX_CONTEXT_MESSAGES xs = drop (length xs - min (length xs) MAX_CONTEXT_MESSAGES) xs"
    by (simp add: slice_last_def MAX_CONTEXT_MESSAGES_def min_def)
  have f: "strip_timestamp = (\<lambda>msg. \<lparr>role = role msg, content = content msg\<rparr>)"
    by (rule ext) (simp add: strip_timestamp_def)
  have g: "get_context s = (Inr (map strip_timestamp (slice_last MAX_CONTEXT_MESSAGES xs)), s)"
    using assms by (simp add: get_context_def)
  show ?thesis
    using g unfolding w f by (simp add: suffix_drop)
qed

theorem get_context_window_witness:
  "let first = \<lparr>role = ''user'', content = ''first'', timestamp = ''2024-01-01T00:00:00''\<rparr>;
       mid = \<lparr>role = ''assistant'', content = ''mid'', timestamp = ''2024-01-01T00:00:01''\<rparr>;
       lst = \<lparr>role = ''user'', content = ''last'', timestamp = ''2024-01-01T00:00:02''\<rparr>;
       s0 = \<lparr>history_file = ''.chat_history'',
              sessions = [''chat_1'' \<mapsto> first # replicate 19 mid @ [lst]],
              current_session = ''chat_1''\<rparr>
   in get_context s0 =
        (Inr (replicate 19 \<lparr>role = ''assistant'', content = ''mid''\<rparr>
              @ [\<lparr>role = ''user'', content = ''last''\<rparr>]), s0)
    \<and> get_context (snd (get_context s0)) = get_context s0"
proof -
  define first :: message where "first = \<lparr>role = ''user'', content = ''first'', timestamp = ''2024-01-01T00:00:00''\<rparr>"
  define mid :: message where "mid = \<lparr>role = ''assistant'', content = ''mid'', timestamp = ''2024-01-01T00:00:01''\<rparr>"
  define lst :: message where "lst = \<lparr>role = ''user'', content = ''last'', timestamp = ''2024-01-01T00:00:02''\<rparr>"
  define s0 where "s0 = \<lparr>history_file = ''.chat_history'',
              sessions = [''chat_1'' \<mapsto> first # replicate 19 mid @ [lst]],
              current_session = ''chat_1''\<rparr>"
  have cur: "sessions s0 (current_session s0) = Some (first # replicate 19 mid @ [lst])"
    by (simp add: s0_def)
  have cut: "drop (length (first # replicate 19 mid @ [lst])
                - min (length (first # replicate 19 mid @ [lst])) MAX_CONTEXT_MESSAGES)
               (first # replicate 19 mid @ [lst]) = replicate 19 mid @ [lst]"
    by (simp add: MAX_CONTEXT_MESSAGES_def)
  have "get_context s0 =
        (Inr (replicate 19 \<lparr>role = ''assistant'', content = ''mid''\<rparr>
              @ [\<lparr>role = ''user'', content = ''last''\<rparr>]), s0)
    \<and> get_context (snd (get_context s0)) = get_context s0"
    using get_context_window [OF cur] unfolding cut by (simp add: mid_def lst_def)
  then show ?thesis
    unfolding Let_def first_def [symmetric] mid_def [symmetric] lst_def [symmetric] s0_def [symmetric]
    by blast
qed

section \<open>History trimming\<close>

lemma add_message_step:
  assumes "sessions s (current_session s) = Some xs"
  shows "add_message r c now s =
           Inr (s\<lparr>sessions := (sessions s)(current_session s \<mapsto>
                  (if 2 * MAX_HISTORY_MESSAGES < length (xs @ [\<lparr>role = r, content = c, timestamp = now\<rparr>])
                   then drop (length (xs @ [\<lparr>role = r, content = c, timestamp = now\<rparr>]) - MAX_HISTORY_MESSAGES)
                          (xs @ [\<lparr>role = r, content = c, timestamp = now\<rparr>])
                   else xs @ [\<lparr>role = r, content = c, timestamp = now\<rparr>]))\<rparr>)"
  using assms
  by (simp add: add_message_def trim_history_def slice_last_def MAX_HISTORY_MESSAGES_def mult.commute)


lemma suffix_if_drop: "suffix (if b then drop n zs else zs) zs"
  by (simp add: suffix_drop)

lemma length_if_drop: "length (if b then drop n zs else zs) \<le> length zs"
  by simp

lemma length_drop_trim: "2 * M < length zs \<Longrightarrow> length (drop (length zs - M) zs) = M"
  by simp

lemma add_messages_run:
  assumes "sessions s (current_session s) = Some xs"
  shows "\<exists>ys. add_messages ms s = Inr (s\<lparr>sessions := (sessions s)(current_session s \<mapsto> ys)\<rparr>)
            \<and> suffix ys (xs @ map mk_message ms) \<and> length ys \<le> length xs + length ms"
  using assms
proof (induction ms arbitrary: s xs)
  case Nil
  then have e: "(sessions s)(current_session s \<mapsto> xs) = sessions s"
    by (rule map_upd_triv)
  have A: "add_messages [] s = Inr (s\<lparr>sessions := (sessions s)(current_session s \<mapsto> xs)\<rparr>)"
    unfolding e by simp
  have B: "suffix xs (xs @ map mk_message [])" by simp
  have C: "length xs \<le> length xs + length ([] :: (string \<times> string \<times> string) list)" by simp
  from A B C show ?case by blast
next
  case (Cons a ms)
  obtain r c now where a: "a = (r, c, now)" by (cases a) auto
  define m where "m = \<lparr>role = r, content = c, timestamp = now\<rparr>"
  define ys1 where "ys1 = (if 2 * MAX_HISTORY_MESSAGES < length (xs @ [m])
                   then drop (length (xs @ [m]) - MAX_HISTORY_MESSAGES) (xs @ [m]) else xs @ [m])"
  define s1 where "s1 = s\<lparr>sessions := (sessions s)(current_session s \<mapsto> ys1)\<rparr>"
  have step: "add_message r c now s = Inr s1"
    using add_message_step [OF Cons.prems, of r c now] by (simp add: s1_def ys1_def m_def)
  have cur: "sessions s1 (current_session s1) = Some ys1" by (simp add: s1_def)
  have suf1: "suffix ys1 (xs @ [m])" unfolding ys1_def by (rule suffix_if_drop)
  have "length ys1 \<le> length (xs @ [m])" unfolding ys1_def by (rule length_if_drop)
  then have len1: "length ys1 \<le> length xs + 1" by simp
  from Cons.IH [OF cur] obtain ys where
    run: "add_messages ms s1 = Inr (s1\<lparr>sessions := (sessions s1)(current_session s1 \<mapsto> ys)\<rparr>)"
    and suf: "suffix ys (ys1 @ map mk_message ms)" and len: "length ys \<le> length ys1 + length ms"
    by blast
  have "suffix (ys1 @ map mk_message ms) ((xs @ [m]) @ map mk_message ms)"
    using suf1 by (simp only: same_suffix_suffix)
  then have "suffix ys (xs @ map mk_message (a # ms))"
    using suf by (simp add: a m_def mk_message_def)
  moreover have "add_messages (a # ms) s = Inr (s\<lparr>sessions := (sessions s)(current_session s \<mapsto> ys)\<rparr>)"
    using step run by (simp add: a s1_def)
  moreover have "length ys \<le> length xs + length (a # ms)" using len len1 by simp
  ultimately show ?case by blast
qed

lemma add_messages_snoc:
  "add_messages (ms @ [a]) s =
     (case add_messages ms s of Inl e \<Rightarrow> Inl e
      | Inr s' \<Rightarrow> add_message (fst a) (fst (snd a)) (snd (snd a)) s')"
proof (induction ms arbitrary: s)
  case Nil
  show ?case by (cases a) (simp split: sum.splits)
next
  case (Cons b ms)
  show ?case by (cases b) (simp add: Cons.IH split: sum.splits)
qed

lemma stored_inject:
  assumes "Inr (s\<lparr>sessions := (sessions s)(k \<mapsto> ys)\<rparr>) = (Inr (s\<lparr>sessions := (sessions s)(k \<mapsto> zs)\<rparr>) :: py_exn + ChatManager)"
  shows "ys = zs"
proof -
  from assms have "s\<lparr>sessions := (sessions s)(k \<mapsto> ys)\<rparr> = s\<lparr>sessions := (sessions s)(k \<mapsto> zs)\<rparr>"
    by (simp only: sum.inject)
  then have "sessions (s\<lparr>sessions := (sessions s)(k \<mapsto> ys)\<rparr>) k = sessions (s\<lparr>sessions := (sessions s)(k \<mapsto> zs)\<rparr>) k"
    by (rule arg_cong [where f = "\<lambda>t. sessions t k"])
  then show ?thesis by simp
qed

lemma add_messages_last_trim:
  assumes cur: "sessions s (current_session s) = Some xs"
    and ne: "ms \<noteq> []"
    and before: "add_messages (butlast ms) s = Inr (s\<lparr>sessions := (sessions s)(current_session s \<mapsto> ys0)\<rparr>)"
    and trig: "2 * MAX_HISTORY_MESSAGES < length (ys0 @ [mk_message (last ms)])"
    and after: "add_messages ms s = Inr (s\<lparr>sessions := (sessions s)(current_session s \<mapsto> ys)\<rparr>)"
  shows "2 * MAX_HISTORY_MESSAGES < length xs + length ms
       \<and> length ys = min (length xs + length ms) MAX_HISTORY_MESSAGES
       \<and> ys = drop (length (ys0 @ [mk_message (last ms)]) - MAX_HISTORY_MESSAGES) (ys0 @ [mk_message (last ms)])"
proof -
  define s1 where "s1 = s\<lparr>sessions := (sessions s)(current_session s \<mapsto> ys0)\<rparr>"
  obtain r c now where l: "last ms = (r, c, now)" by (cases "last ms") auto
  have ms: "ms = butlast ms @ [last ms]" using ne by simp
  have cur1: "sessions s1 (current_session s1) = Some ys0" by (simp add: s1_def)
  from add_messages_run [OF cur, of "butlast ms"] obtain ys0' where
    r0: "add_messages (butlast ms) s = Inr (s\<lparr>sessions := (sessions s)(current_session s \<mapsto> ys0')\<rparr>)"
    and len0: "length ys0' \<le> length xs + length (butlast ms)" by blast
  have "ys0' = ys0" using r0 before stored_inject by metis
  then have "length ys0 \<le> length xs + (length ms - 1)" using len0 by simp
  moreover have "1 \<le> length ms" using ne by (cases ms) simp_all
  ultimately have len: "length ys0 < length xs + length ms" by arith
  have "add_messages ms s = add_message r c now s1"
    using add_messages_snoc [of "butlast ms" "last ms" s] ms before by (simp add: s1_def l)
  also have "\<dots> = Inr (s1\<lparr>sessions := (sessions s1)(current_session s1 \<mapsto>
                  drop (length (ys0 @ [mk_message (last ms)]) - MAX_HISTORY_MESSAGES) (ys0 @ [mk_message (last ms)]))\<rparr>)"
    using add_message_step [OF cur1, of r c now] trig by (simp add: l mk_message_def)
  also have "\<dots> = Inr (s\<lparr>sessions := (sessions s)(current_session s \<mapsto>
                  drop (length (ys0 @ [mk_message (last ms)]) - MAX_HISTORY_MESSAGES) (ys0 @ [mk_message (last ms)]))\<rparr>)"
    by (simp add: s1_def)
  finally have ys: "ys = drop (length (ys0 @ [mk_message (last ms)]) - MAX_HISTORY_MESSAGES) (ys0 @ [mk_message (last ms)])"
    using after stored_inject by metis
  have big: "2 * MAX_HISTORY_MESSAGES < length xs + length ms" using trig len by simp
  have "length ys = MAX_HISTORY_MESSAGES" unfolding ys using trig by (rule length_drop_trim)
  then show ?thesis using big ys by simp
qed

text \<open>
  C2. When the current session holds \<open>xs\<close>, \<open>add_message\<close> stores \<open>xs\<close> with the new message
  appended if that list has at most \<open>2 * MAX_HISTORY_MESSAGES\<close> elements, and otherwise its
  last \<open>MAX_HISTORY_MESSAGES\<close> elements, in their order; nothing else changes. So a run of
  appends always leaves a suffix of everything appended, and when the last append of a run
  triggers the trim, more than \<open>2 * MAX_HISTORY_MESSAGES\<close> messages have been appended over
  all (\<open>N = length xs + length ms\<close>, which is \<open>length ms\<close> for a fresh session) and the
  stored length is \<open>min N MAX_HISTORY_MESSAGES\<close>.
\<close>

theorem add_message_trim:
  assumes cur: "sessions s (current_session s) = Some xs"
  shows "add_message r c now s =
           Inr (s\<lparr>sessions := (sessions s)(current_session s \<mapsto>
                  (if 2 * MAX_HISTORY_MESSAGES < length (xs @ [mk_message (r, c, now)])
                   then drop (length (xs @ [mk_message (r, c, now)]) - MAX_HISTORY_MESSAGES)
                          (xs @ [mk_message (r, c, now)])
                   else xs @ [mk_message (r, c, now)]))\<rparr>)
       \<and> (2 * MAX_HISTORY_MESSAGES < length (xs @ [mk_message (r, c, now)]) \<longrightarrow>
            length (drop (length (xs @ [mk_message (r, c, now)]) - MAX_HISTORY_MESSAGES)
                      (xs @ [mk_message (r, c, now)])) = MAX_HISTORY_MESSAGES)
       \<and> suffix (drop (length (xs @ [mk_message (r, c, now)]) - MAX_HISTORY_MESSAGES)
                      (xs @ [mk_message (r, c, now)])) (xs @ [mk_message (r, c, now)])
       \<and> (\<exists>ys. add_messages ms s = Inr (s\<lparr>sessions := (sessions s)(current_session s \<mapsto> ys)\<rparr>)
              \<and> suffix ys (xs @ map mk_message ms)
              \<and> (\<forall>ys0. ms \<noteq> []
                    \<and> add_messages (butlast ms) s = Inr (s\<lparr>sessions := (sessions s)(current_session s \<mapsto> ys0)\<rparr>)
                    \<and> 2 * MAX_HISTORY_MESSAGES < length (ys0 @ [mk_message (last ms)])
                  \<longrightarrow> 2 * MAX_HISTORY_MESSAGES < length xs + length ms
                    \<and> length ys = min (length xs + length ms) MAX_HISTORY_MESSAGES
                    \<and> ys = drop (length (ys0 @ [mk_message (last ms)]) - MAX_HISTORY_MESSAGES)
                              (ys0 @ [mk_message (last ms)])))"
proof (intro conjI)
  show "add_message r c now s =
           Inr (s\<lparr>sessions := (sessions s)(current_session s \<mapsto>
                  (if 2 * MAX_HISTORY_MESSAGES < length (xs @ [mk_message (r, c, now)])
                   then drop (length (xs @ [mk_message (r, c, now)]) - MAX_HISTORY_MESSAGES)
                          (xs @ [mk_message (r, c, now)])
                   else xs @ [mk_message (r, c, now)]))\<rparr>)"
    using add_message_step [OF cur, of r c now] by (simp add: mk_message_def)
  show "2 * MAX_HISTORY_MESSAGES < length (xs @ [mk_message (r, c, now)]) \<longrightarrow>
            length (drop (length (xs @ [mk_message (r, c, now)]) - MAX_HISTORY_MESSAGES)
                      (xs @ [mk_message (r, c, now)])) = MAX_HISTORY_MESSAGES"
    by (rule impI) (rule length_drop_trim)
  show "suffix (drop (length (xs @ [mk_message (r, c, now)]) - MAX_HISTORY_MESSAGES)
                      (xs @ [mk_message (r, c, now)])) (xs @ [mk_message (r, c, now)])"
    by (rule suffix_drop)
  from add_messages_run [OF cur, of ms] obtain ys where
    run: "add_messages ms s = Inr (s\<lparr>sessions := (sessions s)(current_session s \<mapsto> ys)\<rparr>)"
    and suf: "suffix ys (xs @ map mk_message ms)" by blast
  show "\<exists>ys. add_messages ms s = Inr (s\<lparr>sessions := (sessions s)(current_session s \<mapsto> ys)\<rparr>)
              \<and> suffix ys (xs @ map mk_message ms)
              \<and> (\<forall>ys0. ms \<noteq> []
                    \<and> add_messages (butlast ms) s = Inr (s\<lparr>sessions := (sessions s)(current_session s \<mapsto> ys0)\<rparr>)
                    \<and> 2 * MAX_HISTORY_MESSAGES < length (ys0 @ [mk_message (last ms)])
                  \<longrightarrow> 2 * MAX_HISTORY_MESSAGES < length xs + length ms
                    \<and> length ys = min (length xs + length ms) MAX_HISTORY_MESSAGES
                    \<and> ys = drop (length (ys0 @ [mk_message (last ms)]) - MAX_HISTORY_MESSAGES)
                              (ys0 @ [mk_message (last ms)]))"
  proof (intro exI [of _ ys] conjI allI impI)
    show "add_messages ms s = Inr (s\<lparr>sessions := (sessions s)(current_session s \<mapsto> ys)\<rparr>)" by (rule run)
    show "suffix ys (xs @ map mk_message ms)" by (rule suf)
  next
    fix ys0
    assume h: "ms \<noteq> []
                    \<and> add_messages (butlast ms) s = Inr (s\<lparr>sessions := (sessions s)(current_session s \<mapsto> ys0)\<rparr>)
                    \<and> 2 * MAX_HISTORY_MESSAGES < length (ys0 @ [mk_message (last ms)])"
    note r = add_messages_last_trim [OF cur _ _ _ run, of ys0]
    show "2 * MAX_HISTORY_MESSAGES < length xs + length ms" using r h by blast
    show "length ys = min (length xs + length ms) MAX_HISTORY_MESSAGES" using r h by blast
    show "ys = drop (length (ys0 @ [mk_message (last ms)]) - MAX_HISTORY_MESSAGES)
                              (ys0 @ [mk_message (last ms)])" using r h by blast
  qed
qed

theorem add_message_trim_witness:
  "let m0 = \<lparr>role = ''user'', content = ''old'', timestamp = ''2024-01-01T00:00:00''\<rparr>;
       m1 = \<lparr>role = ''user'', content = ''new'', timestamp = ''2024-01-02T00:00:00''\<rparr>;
       s0 = \<lparr>history_file = ''.chat_history'', sessions = [''chat_1'' \<mapsto> replicate 2000 m0],
             current_session = ''chat_1''\<rparr>
   in add_message ''user'' ''new'' ''2024-01-02T00:00:00'' s0
        = Inr (s0\<lparr>sessions := [''chat_1'' \<mapsto> replicate 999 m0 @ [m1]]\<rparr>)
    \<and> (\<exists>ys. add_messages [(''user'', ''new'', ''2024-01-02T00:00:00'')] s0
               = Inr (s0\<lparr>sessions := [''chat_1'' \<mapsto> ys]\<rparr>)
            \<and> length ys = 1000 \<and> ys = replicate 999 m0 @ [m1])"
proof -
  define m0 :: message where "m0 = \<lparr>role = ''user'', content = ''old'', timestamp = ''2024-01-01T00:00:00''\<rparr>"
  define m1 :: message where "m1 = \<lparr>role = ''user'', content = ''new'', timestamp = ''2024-01-02T00:00:00''\<rparr>"
  define s0 where "s0 = \<lparr>history_file = ''.chat_history'', sessions = [''chat_1'' \<mapsto> replicate 2000 m0],
             current_session = ''chat_1''\<rparr>"
  have cur: "sessions s0 (current_session s0) = Some (replicate 2000 m0)" by (simp add: s0_def)
  have mk: "mk_message (''user'', ''new'', ''2024-01-02T00:00:00'') = m1" by (simp add: mk_message_def m1_def)
  have upd: "\<And>ys. (sessions s0)(current_session s0 \<mapsto> ys) = [''chat_1'' \<mapsto> ys]" by (simp add: s0_def)
  have dr: "drop (length (replicate 2000 m0 @ [m1]) - MAX_HISTORY_MESSAGES) (replicate 2000 m0 @ [m1])
             = replicate 999 m0 @ [m1]"
    by (simp add: MAX_HISTORY_MESSAGES_def)
  have trig: "2 * MAX_HISTORY_MESSAGES < length (replicate 2000 m0 @ [m1])"
    by (simp add: MAX_HISTORY_MESSAGES_def)
  note t = add_message_trim [OF cur, of "''user''" "''new''" "''2024-01-02T00:00:00''"
              "[(''user'', ''new'', ''2024-01-02T00:00:00'')]", unfolded mk upd]
  have a: "add_message ''user'' ''new'' ''2024-01-02T00:00:00'' s0
        = Inr (s0\<lparr>sessions := [''chat_1'' \<mapsto> replicate 999 m0 @ [m1]]\<rparr>)"
    using t trig dr by simp
  from t obtain ys where
    run: "add_messages [(''user'', ''new'', ''2024-01-02T00:00:00'')] s0 = Inr (s0\<lparr>sessions := [''chat_1'' \<mapsto> ys]\<rparr>)"
    and last: "\<forall>ys0. [(''user'', ''new'', ''2024-01-02T00:00:00'')] \<noteq> []
                    \<and> add_messages (butlast [(''user'', ''new'', ''2024-01-02T00:00:00'')]) s0 = Inr (s0\<lparr>sessions := [''chat_1'' \<mapsto> ys0]\<rparr>)
                    \<and> 2 * MAX_HISTORY_MESSAGES < length (ys0 @ [mk_message (last [(''user'', ''new'', ''2024-01-02T00:00:00'')])])
                  \<longrightarrow> 2 * MAX_HISTORY_MESSAGES < length (replicate 2000 m0) + length [(''user'', ''new'', ''2024-01-02T00:00:00'')]
                    \<and> length ys = min (length (replicate 2000 m0) + length [(''user'', ''new'', ''2024-01-02T00:00:00'')]) MAX_HISTORY_MESSAGES
                    \<and> ys = drop (length (ys0 @ [mk_message (last [(''user'', ''new'', ''2024-01-02T00:00:00'')])]) - MAX_HISTORY_MESSAGES)
                              (ys0 @ [mk_message (last [(''user'', ''new'', ''2024-01-02T00:00:00'')])])"
    by blast
  have before: "add_messages (butlast [(''user'', ''new'', ''2024-01-02T00:00:00'')]) s0
                  = Inr (s0\<lparr>sessions := [''chat_1'' \<mapsto> replicate 2000 m0]\<rparr>)"
    by (simp add: s0_def)
  have "length ys = min (length (replicate 2000 m0) + length [(''user'', ''new'', ''2024-01-02T00:00:00'')]) MAX_HISTORY_MESSAGES
         \<and> ys = drop (length (replicate 2000 m0 @ [m1]) - MAX_HISTORY_MESSAGES) (replicate 2000 m0 @ [m1])"
    using last [rule_format, of "replicate 2000 m0"] before trig mk by simp
  then have "length ys = 1000 \<and> ys = replicate 999 m0 @ [m1]"
    using dr by (simp add: MAX_HISTORY_MESSAGES_def)
  with run a show ?thesis
    unfolding Let_def m0_def [symmetric] m1_def [symmetric] s0_def [symmetric] by blast
qed

section \<open>Deleting and renaming sessions\<close>

lemma save_history_attempt:
  "\<exists>r ev. save_history w s = (r, s, SaveAttempt (history_file s) (sessions s) # ev)
          \<and> (w = None \<longrightarrow> r = None \<and> ev = [])"
  by (cases "(w, s)" rule: save_history.cases) auto

text \<open>
  C5. \<open>delete_session\<close> rejects a name that is no session, and the name of the active
  session, with its red console message, and in both cases returns the manager unchanged
  and attempts no save. For any other existing name it removes that one key, keeps every
  other session and the active one, and attempts the save of the new mapping (returning
  normally when the write goes through). The rejection is an early return after the
  message; the code has no exception class for it.
\<close>

theorem delete_session_cases:
  "(sessions s name = None \<longrightarrow>
      delete_session w name s =
        (None, s, [ConsolePrint (''[red]Session '' @ apostrophe @ name @ apostrophe @ '' not found.[/red]'')]))
 \<and> (sessions s name \<noteq> None \<and> name = current_session s \<longrightarrow>
      delete_session w name s =
        (None, s, [ConsolePrint ''[red]Cannot delete current session. Switch to another session first.[/red]'']))
 \<and> (sessions s name \<noteq> None \<and> name \<noteq> current_session s \<longrightarrow>
      (\<exists>r ev. delete_session w name s =
                 (r, s\<lparr>sessions := (sessions s)(name := None)\<rparr>,
                  SaveAttempt (history_file s) ((sessions s)(name := None)) # ev)
              \<and> (w = None \<longrightarrow> r = None))
      \<and> dom ((sessions s)(name := None)) = dom (sessions s) - {name}
      \<and> (\<forall>other. other \<noteq> name \<longrightarrow> ((sessions s)(name := None)) other = sessions s other))"
proof (intro conjI impI allI)
  assume "sessions s name = None"
  then show "delete_session w name s =
        (None, s, [ConsolePrint (''[red]Session '' @ apostrophe @ name @ apostrophe @ '' not found.[/red]'')])"
    by (simp add: delete_session_def)
next
  assume "sessions s name \<noteq> None \<and> name = current_session s"
  then show "delete_session w name s =
        (None, s, [ConsolePrint ''[red]Cannot delete current session. Switch to another session first.[/red]''])"
    by (auto simp: delete_session_def)
next
  assume h: "sessions s name \<noteq> None \<and> name \<noteq> current_session s"
  obtain r ev where sv: "save_history w (s\<lparr>sessions := (sessions s)(name := None)\<rparr>)
       = (r, s\<lparr>sessions := (sessions s)(name := None)\<rparr>,
          SaveAttempt (history_file s) ((sessions s)(name := None)) # ev)" and ok: "w = None \<longrightarrow> r = None \<and> ev = []"
    using save_history_attempt [of w "s\<lparr>sessions := (sessions s)(name := None)\<rparr>"] by auto
  show "\<exists>r ev. delete_session w name s =
                 (r, s\<lparr>sessions := (sessions s)(name := None)\<rparr>,
                  SaveAttempt (history_file s) ((sessions s)(name := None)) # ev)
              \<and> (w = None \<longrightarrow> r = None)"
    using h sv ok by (cases r) (auto simp: delete_session_def)
next
  show "dom ((sessions s)(name := None)) = dom (sessions s) - {name}" by simp
next
  fix other assume "other \<noteq> name"
  then show "((sessions s)(name := None)) other = sessions s other" by simp
qed

theorem delete_session_cases_witness:
  "let s0 = \<lparr>history_file = ''.chat_history'',
              sessions = [''a'' \<mapsto> [], ''b'' \<mapsto> [\<lparr>role = ''user'', content = ''hi'', timestamp = ''t''\<rparr>]],
              current_session = ''a''\<rparr>
   in delete_session None ''c'' s0 =
        (None, s0, [ConsolePrint (''[red]Session '' @ apostrophe @ ''c'' @ apostrophe @ '' not found.[/red]'')])
    \<and> delete_session None ''a'' s0 =
        (None, s0, [ConsolePrint ''[red]Cannot delete current session. Switch to another session first.[/red]''])
    \<and> (\<exists>ev. delete_session None ''b'' s0 =
          (None, s0\<lparr>sessions := (sessions s0)(''b'' := None)\<rparr>,
           SaveAttempt ''.chat_history'' ((sessions s0)(''b'' := None)) # ev))
    \<and> dom ((sessions s0)(''b'' := None)) = {''a''}"
proof -
  define s0 where "s0 = \<lparr>history_file = ''.chat_history'',
              sessions = [''a'' \<mapsto> [], ''b'' \<mapsto> [\<lparr>role = ''user'', content = ''hi'', timestamp = ''t''\<rparr>]],
              current_session = ''a''\<rparr>"
  have c: "sessions s0 ''c'' = None" by (simp add: s0_def)
  have a: "sessions s0 ''a'' \<noteq> None \<and> ''a'' = current_session s0" by (simp add: s0_def)
  have b: "sessions s0 ''b'' \<noteq> None \<and> ''b'' \<noteq> current_session s0" by (simp add: s0_def)
  have hf: "history_file s0 = ''.chat_history''" by (simp add: s0_def)
  have d: "dom (sessions s0) - {''b''} = {''a''}" by (auto simp: s0_def)
  have "delete_session None ''c'' s0 =
        (None, s0, [ConsolePrint (''[red]Session '' @ apostrophe @ ''c'' @ apostrophe @ '' not found.[/red]'')])"
    using delete_session_cases [of s0 "''c''" None] c by blast
  moreover have "delete_session None ''a'' s0 =
        (None, s0, [ConsolePrint ''[red]Cannot delete current session. Switch to another session first.[/red]''])"
    using delete_session_cases [of s0 "''a''" None] a by blast
  moreover have "(\<exists>ev. delete_session None ''b'' s0 =
          (None, s0\<lparr>sessions := (sessions s0)(''b'' := None)\<rparr>,
           SaveAttempt ''.chat_history'' ((sessions s0)(''b'' := None)) # ev))
       \<and> dom ((sessions s0)(''b'' := None)) = {''a''}"
    using delete_session_cases [of s0 "''b''" None] b d unfolding hf by metis
  ultimately show ?thesis
    unfolding Let_def s0_def [symmetric] by blast
qed

text \<open>
  C6. \<open>rename_session\<close> rejects an absent old name (not found) and a present new name
  (already exists) with its red console message, the manager unchanged and no save
  attempted. Otherwise the message list moves from the old key to the new one, every other
  session stays, \<open>current_session\<close> becomes the new name exactly when it was the old one,
  and the save of the new mapping is attempted.
\<close>

theorem rename_session_cases:
  "(sessions s old = None \<longrightarrow>
      rename_session w old new s =
        (None, s, [ConsolePrint (''[red]Session '' @ apostrophe @ old @ apostrophe @ '' not found.[/red]'')]))
 \<and> (sessions s old \<noteq> None \<and> sessions s new \<noteq> None \<longrightarrow>
      rename_session w old new s =
        (None, s, [ConsolePrint (''[red]Session '' @ apostrophe @ new @ apostrophe @ '' already exists.[/red]'')]))
 \<and> (\<forall>msgs. sessions s old = Some msgs \<and> sessions s new = None \<longrightarrow>
      (\<exists>r ev. rename_session w old new s =
                 (r,
                  s\<lparr>sessions := ((sessions s)(old := None))(new \<mapsto> msgs),
                    current_session := (if current_session s = old then new else current_session s)\<rparr>,
                  SaveAttempt (history_file s) (((sessions s)(old := None))(new \<mapsto> msgs)) # ev)
              \<and> (w = None \<longrightarrow> r = None))
      \<and> (((sessions s)(old := None))(new \<mapsto> msgs)) new = Some msgs
      \<and> (((sessions s)(old := None))(new \<mapsto> msgs)) old = None
      \<and> (\<forall>other. other \<noteq> old \<and> other \<noteq> new \<longrightarrow>
            (((sessions s)(old := None))(new \<mapsto> msgs)) other = sessions s other))"
proof (intro conjI impI allI)
  assume "sessions s old = None"
  then show "rename_session w old new s =
        (None, s, [ConsolePrint (''[red]Session '' @ apostrophe @ old @ apostrophe @ '' not found.[/red]'')])"
    by (simp add: rename_session_def)
next
  assume "sessions s old \<noteq> None \<and> sessions s new \<noteq> None"
  then show "rename_session w old new s =
        (None, s, [ConsolePrint (''[red]Session '' @ apostrophe @ new @ apostrophe @ '' already exists.[/red]'')])"
    by (auto simp: rename_session_def)
next
  fix msgs
  assume h: "sessions s old = Some msgs \<and> sessions s new = None"
  define s' where "s' = s\<lparr>sessions := ((sessions s)(old := None))(new \<mapsto> msgs),
                    current_session := (if current_session s = old then new else current_session s)\<rparr>"
  obtain r ev where sv: "save_history w s' = (r, s', SaveAttempt (history_file s') (sessions s') # ev)"
    and ok: "w = None \<longrightarrow> r = None \<and> ev = []"
    using save_history_attempt [of w s'] by auto
  have f: "history_file s' = history_file s" "sessions s' = ((sessions s)(old := None))(new \<mapsto> msgs)"
    by (simp_all add: s'_def)
  have "\<exists>r ev. rename_session w old new s = (r, s', SaveAttempt (history_file s) (((sessions s)(old := None))(new \<mapsto> msgs)) # ev)
              \<and> (w = None \<longrightarrow> r = None)"
    using h sv ok unfolding f by (cases r) (auto simp: rename_session_def s'_def)
  then show "\<exists>r ev. rename_session w old new s =
                 (r,
                  s\<lparr>sessions := ((sessions s)(old := None))(new \<mapsto> msgs),
                    current_session := (if current_session s = old then new else current_session s)\<rparr>,
                  SaveAttempt (history_file s) (((sessions s)(old := None))(new \<mapsto> msgs)) # ev)
              \<and> (w = None \<longrightarrow> r = None)"
    unfolding s'_def .
  show "(((sessions s)(old := None))(new \<mapsto> msgs)) new = Some msgs" by simp
  show "(((sessions s)(old := None))(new \<mapsto> msgs)) old = None" using h by auto
next
  fix msgs other
  assume "other \<noteq> old \<and> other \<noteq> new"
  then show "(((sessions s)(old := None))(new \<mapsto> msgs)) other = sessions s other" by simp
qed

theorem rename_session_cases_witness:
  "let m = \<lparr>role = ''user'', content = ''hi'', timestamp = ''t''\<rparr>;
       s0 = \<lparr>history_file = ''.chat_history'', sessions = [''a'' \<mapsto> [m], ''b'' \<mapsto> []],
             current_session = ''a''\<rparr>
   in rename_session None ''c'' ''d'' s0 =
        (None, s0, [ConsolePrint (''[red]Session '' @ apostrophe @ ''c'' @ apostrophe @ '' not found.[/red]'')])
    \<and> rename_session None ''a'' ''b'' s0 =
        (None, s0, [ConsolePrint (''[red]Session '' @ apostrophe @ ''b'' @ apostrophe @ '' already exists.[/red]'')])
    \<and> (\<exists>ev. rename_session None ''a'' ''c'' s0 =
          (None,
           s0\<lparr>sessions := ((sessions s0)(''a'' := None))(''c'' \<mapsto> [m]), current_session := ''c''\<rparr>,
           SaveAttempt ''.chat_history'' (((sessions s0)(''a'' := None))(''c'' \<mapsto> [m])) # ev))
    \<and> (\<exists>ev. rename_session None ''b'' ''c'' s0 =
          (None,
           s0\<lparr>sessions := ((sessions s0)(''b'' := None))(''c'' \<mapsto> []), current_session := ''a''\<rparr>,
           SaveAttempt ''.chat_history'' (((sessions s0)(''b'' := None))(''c'' \<mapsto> [])) # ev))"
proof -
  define m :: message where "m = \<lparr>role = ''user'', content = ''hi'', timestamp = ''t''\<rparr>"
  define s0 where "s0 = \<lparr>history_file = ''.chat_history'', sessions = [''a'' \<mapsto> [m], ''b'' \<mapsto> []],
             current_session = ''a''\<rparr>"
  have c: "sessions s0 ''c'' = None" by (simp add: s0_def)
  have ab: "sessions s0 ''a'' \<noteq> None \<and> sessions s0 ''b'' \<noteq> None" by (simp add: s0_def)
  have ac: "sessions s0 ''a'' = Some [m] \<and> sessions s0 ''c'' = None" by (simp add: s0_def)
  have bc: "sessions s0 ''b'' = Some [] \<and> sessions s0 ''c'' = None" by (simp add: s0_def)
  have hf: "history_file s0 = ''.chat_history''" by (simp add: s0_def)
  have cu: "(if current_session s0 = ''a'' then ''c'' else current_session s0) = ''c''"
           "(if current_session s0 = ''b'' then ''c'' else current_session s0) = ''a''"
    by (simp_all add: s0_def)
  have "rename_session None ''c'' ''d'' s0 =
        (None, s0, [ConsolePrint (''[red]Session '' @ apostrophe @ ''c'' @ apostrophe @ '' not found.[/red]'')])"
    using rename_session_cases [of s0 "''c''" None "''d''"] c by blast
  moreover have "rename_session None ''a'' ''b'' s0 =
        (None, s0, [ConsolePrint (''[red]Session '' @ apostrophe @ ''b'' @ apostrophe @ '' already exists.[/red]'')])"
    using rename_session_cases [of s0 "''a''" None "''b''"] ab by blast
  moreover have "\<exists>ev. rename_session None ''a'' ''c'' s0 =
          (None,
           s0\<lparr>sessions := ((sessions s0)(''a'' := None))(''c'' \<mapsto> [m]), current_session := ''c''\<rparr>,
           SaveAttempt ''.chat_history'' (((sessions s0)(''a'' := None))(''c'' \<mapsto> [m])) # ev)"
    using rename_session_cases [of s0 "''a''" None "''c''"] ac unfolding hf cu by metis
  moreover have "\<exists>ev. rename_session None ''b'' ''c'' s0 =
          (None,
           s0\<lparr>sessions := ((sessions s0)(''b'' := None))(''c'' \<mapsto> []), current_session := ''a''\<rparr>,
           SaveAttempt ''.chat_history'' (((sessions s0)(''b'' := None))(''c'' \<mapsto> [])) # ev)"
    using rename_session_cases [of s0 "''b''" None "''c''"] bc unfolding hf cu by metis
  ultimately show ?thesis
    unfolding Let_def m_def [symmetric] s0_def [symmetric] by blast
qed

text \<open>
  C10. Renaming an existing session to its own name is rejected as already existing: the
  manager is unchanged and the only event is the console message, so no save is attempted.
\<close>

theorem rename_session_self:
  "sessions s x \<noteq> None \<Longrightarrow>
     rename_session w x x s =
       (None, s, [ConsolePrint (''[red]Session '' @ apostrophe @ x @ apostrophe @ '' already exists.[/red]'')])"
  by (auto simp: rename_session_def)

theorem rename_session_self_witness:
  "rename_session None ''a'' ''a''
     \<lparr>history_file = ''.chat_history'', sessions = [''a'' \<mapsto> []], current_session = ''a''\<rparr>
   = (None,
      \<lparr>history_file = ''.chat_history'', sessions = [''a'' \<mapsto> []], current_session = ''a''\<rparr>,
      [ConsolePrint (''[red]Session '' @ apostrophe @ ''a'' @ apostrophe @ '' already exists.[/red]'')])"
  using rename_session_self [of "\<lparr>history_file = ''.chat_history'', sessions = [''a'' \<mapsto> []], current_session = ''a''\<rparr>" "''a''" None]
  by simp

section \<open>The active session always exists\<close>

lemma save_history_manager: "fst (snd (save_history w s)) = s"
  by (cases "(w, s)" rule: save_history.cases) auto

lemma after_save:
  "fst (snd (case save_history w s of (Some e, s', ev) \<Rightarrow> (Some e, s', ev) | (None, s', ev) \<Rightarrow> (None, s', ev @ ev2))) = s"
  using save_history_manager [of w s]
  by (cases "save_history w s") (auto split: option.splits)

lemma clear_history_manager:
  "fst (snd (clear_history w s)) = s\<lparr>sessions := (sessions s)(current_session s \<mapsto> [])\<rparr>"
  unfolding clear_history_def by (rule after_save)

lemma delete_session_manager:
  "fst (snd (delete_session w name s)) =
     (if sessions s name = None \<or> name = current_session s then s
      else s\<lparr>sessions := (sessions s)(name := None)\<rparr>)"
  unfolding delete_session_def by (simp add: after_save)

lemma rename_session_manager:
  "fst (snd (rename_session w old new s)) =
     (case sessions s old of None \<Rightarrow> s
      | Some msgs \<Rightarrow>
          if sessions s new \<noteq> None then s
          else s\<lparr>sessions := ((sessions s)(old := None))(new \<mapsto> msgs),
                 current_session := (if current_session s = old then new else current_session s)\<rparr>)"
  unfolding rename_session_def by (simp add: after_save split: option.splits)

lemma load_history_current: "current_session (fst (snd (load_history ex rd s))) = current_session s"
  by (cases "(ex, rd, s)" rule: load_history.cases) auto

lemma load_history_raises:
  "fst (load_history ex rd s) = Some e \<Longrightarrow> ex \<and> rd = ReadRaises e"
  by (cases "(ex, rd, s)" rule: load_history.cases) auto

text \<open>
  C8. The constructor, when it returns, leaves \<open>current_session\<close> a key of \<open>sessions\<close> (it
  fails to return only when \<open>load_history\<close> raises), and \<open>add_message\<close>, \<open>clear_history\<close>,
  \<open>switch_session\<close>, \<open>delete_session\<close> and \<open>rename_session\<close> keep it one, whatever the
  write of the history file does; under the invariant \<open>add_message\<close> returns.
\<close>

theorem current_session_invariant:
  "(case ChatManager_init path ex rd stamp of
      (None, s0, ev) \<Rightarrow> current_session_exists s0 \<and> current_session s0 = ''chat_'' @ stamp
    | (Some e, s0, ev) \<Rightarrow> ex \<and> rd = ReadRaises e)
 \<and> (current_session_exists s \<longrightarrow>
       (\<exists>s'. add_message r c now s = Inr s' \<and> current_session_exists s'))
 \<and> current_session_exists (fst (snd (clear_history w s)))
 \<and> current_session_exists (fst (switch_session name s))
 \<and> (current_session_exists s \<longrightarrow> current_session_exists (fst (snd (delete_session w name s))))
 \<and> (current_session_exists s \<longrightarrow> current_session_exists (fst (snd (rename_session w old new s))))"
proof (intro conjI impI)
  show "case ChatManager_init path ex rd stamp of
      (None, s0, ev) \<Rightarrow> current_session_exists s0 \<and> current_session s0 = ''chat_'' @ stamp
    | (Some e, s0, ev) \<Rightarrow> ex \<and> rd = ReadRaises e"
    using load_history_raises [of ex rd "\<lparr>history_file = path, sessions = Map.empty, current_session = []\<rparr>"]
    by (auto simp: ChatManager_init_def current_session_exists_def split: prod.splits option.splits)
next
  assume "current_session_exists s"
  then obtain xs where "sessions s (current_session s) = Some xs"
    by (auto simp: current_session_exists_def)
  then show "\<exists>s'. add_message r c now s = Inr s' \<and> current_session_exists s'"
    by (simp add: add_message_def trim_history_def current_session_exists_def)
next
  show "current_session_exists (fst (snd (clear_history w s)))"
    by (simp add: clear_history_manager current_session_exists_def)
next
  show "current_session_exists (fst (switch_session name s))"
    by (simp add: switch_session_def current_session_exists_def)
next
  assume "current_session_exists s"
  then show "current_session_exists (fst (snd (delete_session w name s)))"
    by (auto simp: delete_session_manager current_session_exists_def)
next
  assume "current_session_exists s"
  then show "current_session_exists (fst (snd (rename_session w old new s)))"
    by (auto simp: rename_session_manager current_session_exists_def split: option.splits)
qed

theorem current_session_invariant_witness:
  "let s0 = \<lparr>history_file = ''.chat_history'', sessions = [''old'' \<mapsto> [], ''chat_1'' \<mapsto> []],
              current_session = ''chat_1''\<rparr>
   in current_session_exists s0
    \<and> (\<exists>s'. add_message ''user'' ''hi'' ''t'' s0 = Inr s' \<and> current_session_exists s')
    \<and> current_session_exists (fst (snd (clear_history None s0)))
    \<and> current_session_exists (fst (switch_session ''other'' s0))
    \<and> current_session_exists (fst (snd (delete_session None ''old'' s0)))
    \<and> current_session_exists (fst (snd (rename_session None ''chat_1'' ''work'' s0)))
    \<and> current_session_exists
          (fst (snd (ChatManager_init ''.chat_history'' False (Parsed Map.empty) ''20240101_120000'')))"
proof -
  define s0 where "s0 = \<lparr>history_file = ''.chat_history'', sessions = [''old'' \<mapsto> [], ''chat_1'' \<mapsto> []],
              current_session = ''chat_1''\<rparr>"
  have inv: "current_session_exists s0" by (simp add: s0_def current_session_exists_def)
  note t = current_session_invariant [where s = s0 and path = "''.chat_history''" and ex = False
      and rd = "Parsed Map.empty" and stamp = "''20240101_120000''" and r = "''user''" and c = "''hi''"
      and now = "''t''" and w = None and name = "''old''" and old = "''chat_1''" and new = "''work''"]
  have i: "ChatManager_init ''.chat_history'' False (Parsed Map.empty) ''20240101_120000''
            = (None, fst (snd (ChatManager_init ''.chat_history'' False (Parsed Map.empty) ''20240101_120000'')), [])"
    by (simp add: ChatManager_init_def)
  have "current_session_exists
          (fst (snd (ChatManager_init ''.chat_history'' False (Parsed Map.empty) ''20240101_120000'')))"
    using t by (subst (asm) i) simp
  moreover have "current_session_exists (fst (switch_session ''other'' s0))"
    using current_session_invariant [where s = s0 and name = "''other''"] by blast
  ultimately show ?thesis
    unfolding Let_def s0_def [symmetric] using t inv by blast
qed

section \<open>Sending a message\<close>



lemma stream_handler_no_save:
  "filter is_save_attempt (snd (stream_handler rich msg acc ev)) = filter is_save_attempt ev"
  by (simp add: stream_handler_def split: option.splits)

lemma handle_stream_loop_no_save:
  "filter is_save_attempt (snd (handle_stream_loop rich items acc ev)) = filter is_save_attempt ev"
  by (induction rich items acc ev rule: handle_stream_loop.induct) (simp_all add: stream_handler_no_save)

lemma chat_no_save: "filter is_save_attempt (snd (chat rich svc messages sp st)) = []"
  using handle_stream_loop_no_save [of rich "stream_items svc" "[]" "[]"]
  by (auto simp: chat_def Let_def handle_stream_def split: option.splits prod.splits list.splits sum.splits)

lemma save_history_saves:
  "filter is_save_attempt (snd (snd (save_history w s))) = [SaveAttempt (history_file s) (sessions s)]"
  by (cases "(w, s)" rule: save_history.cases) auto

lemma add_message_Inr:
  assumes "add_message r c now s = Inr s'"
  shows "\<exists>xs. sessions s (current_session s) = Some xs
            \<and> s' = s\<lparr>sessions := (sessions s)(current_session s \<mapsto>
                  (if 2 * MAX_HISTORY_MESSAGES < length (xs @ [\<lparr>role = r, content = c, timestamp = now\<rparr>])
                   then drop (length (xs @ [\<lparr>role = r, content = c, timestamp = now\<rparr>]) - MAX_HISTORY_MESSAGES)
                          (xs @ [\<lparr>role = r, content = c, timestamp = now\<rparr>])
                   else xs @ [\<lparr>role = r, content = c, timestamp = now\<rparr>]))\<rparr>"
proof (cases "sessions s (current_session s)")
  case None
  with assms show ?thesis by (simp add: add_message_def)
next
  case (Some xs)
  from add_message_step [OF Some, of r c now] assms show ?thesis using Some by simp
qed

lemma send_message_catch:
  assumes "llm_client a"
    and "add_message ''user'' user_input now_user (chat_manager a) = Inr m1"
    and "get_context m1 = (Inr messages, m1)"
    and "send_message_try rich svc now_assistant w messages (a\<lparr>chat_manager := m1\<rparr>) = (r, a', ev)"
  shows "\<exists>r' ev'. send_message rich svc now_user now_assistant w user_input a = (r', a', ev')
           \<and> filter is_save_attempt ev' = filter is_save_attempt ev
           \<and> (r = None \<longrightarrow> r' = None)"
  using assms
  by (auto simp: send_message_def split: option.splits py_exn.splits)

lemma send_message_try_success:
  assumes c: "chat rich svc messages (system_prompt a) (streaming a) = (Inr response, ev)"
    and cur: "sessions (chat_manager a) (current_session (chat_manager a)) = Some xs"
  shows "\<exists>m2 ys r evs. send_message_try rich svc now w messages a = (r, a\<lparr>chat_manager := m2\<rparr>, evs)
       \<and> add_message ''assistant'' response now (chat_manager a) = Inr m2
       \<and> sessions m2 (current_session m2) = Some ys
       \<and> filter is_save_attempt evs =
            (if length ys mod 4 = 0 then [SaveAttempt (history_file m2) (sessions m2)] else [])
       \<and> (w = None \<longrightarrow> r = None)"
proof -
  define ys where "ys = (if 2 * MAX_HISTORY_MESSAGES < length (xs @ [\<lparr>role = ''assistant'', content = response, timestamp = now\<rparr>])
                   then drop (length (xs @ [\<lparr>role = ''assistant'', content = response, timestamp = now\<rparr>]) - MAX_HISTORY_MESSAGES)
                          (xs @ [\<lparr>role = ''assistant'', content = response, timestamp = now\<rparr>])
                   else xs @ [\<lparr>role = ''assistant'', content = response, timestamp = now\<rparr>])"
  define m2 where "m2 = (chat_manager a)\<lparr>sessions := (sessions (chat_manager a))(current_session (chat_manager a) \<mapsto> ys)\<rparr>"
  have add: "add_message ''assistant'' response now (chat_manager a) = Inr m2"
    using add_message_step [OF cur, of "''assistant''" response now] by (simp add: m2_def ys_def)
  have cur2: "sessions m2 (current_session m2) = Some ys" by (simp add: m2_def)
  have nosave: "filter is_save_attempt ev = []"
    using chat_no_save [of rich svc messages "system_prompt a" "streaming a"] c by simp
  show ?thesis
  proof (cases "length ys mod 4 = 0")
    case False
    have "send_message_try rich svc now w messages a =
            (None, a\<lparr>chat_manager := m2\<rparr>,
             ev @ (if \<not> streaming a
                       then [ConsolePrint ''[bold green]Assistant:[/bold green]'',
                             ConsoleMarkdown response, ConsolePrint []]
                       else []))"
      using c add cur2 False by (simp add: send_message_try_def)
    then show ?thesis using add cur2 False nosave by auto
  next
    case True
    obtain r evs where sv: "save_history w m2 = (r, m2, evs)"
      and sv1: "filter is_save_attempt evs = [SaveAttempt (history_file m2) (sessions m2)]"
      and sv2: "w = None \<longrightarrow> r = None"
      using save_history_attempt [of w m2] save_history_saves [of w m2] by auto
    have "send_message_try rich svc now w messages a =
            (r, a\<lparr>chat_manager := m2\<rparr>,
             ev @ (if \<not> streaming a
                       then [ConsolePrint ''[bold green]Assistant:[/bold green]'',
                             ConsoleMarkdown response, ConsolePrint []]
                       else []) @ evs)"
      using c add cur2 True sv by (simp add: send_message_try_def)
    then show ?thesis using add cur2 True nosave sv1 sv2 by auto
  qed
qed

text \<open>
  C9. When the client exists, the user's message has been appended and \<open>chat\<close> returns a
  text, \<open>send_message\<close> appends the assistant's message with exactly that text (it is the
  last message of the current session afterwards), and it attempts to save the history
  exactly when the length of the current session, after this append and its trim, is
  divisible by 4; no other save is attempted.
\<close>

theorem send_message_success:
  assumes "llm_client a"
    and u: "add_message ''user'' user_input now_user (chat_manager a) = Inr m1"
    and g: "get_context m1 = (Inr messages, m1)"
    and c: "chat rich svc messages (system_prompt a) (streaming a) = (Inr response, ev)"
  shows "\<exists>m2 ys r evs.
           send_message rich svc now_user now_assistant w user_input a = (r, a\<lparr>chat_manager := m2\<rparr>, evs)
         \<and> add_message ''assistant'' response now_assistant m1 = Inr m2
         \<and> sessions m2 (current_session m2) = Some ys
         \<and> ys \<noteq> []
         \<and> last ys = \<lparr>role = ''assistant'', content = response, timestamp = now_assistant\<rparr>
         \<and> filter is_save_attempt evs =
              (if length ys mod 4 = 0 then [SaveAttempt (history_file m2) (sessions m2)] else [])
         \<and> (w = None \<longrightarrow> r = None)"
proof -
  from add_message_Inr [OF u] obtain xs0 zs where m1: "m1 = (chat_manager a)\<lparr>sessions := (sessions (chat_manager a))(current_session (chat_manager a) \<mapsto> zs)\<rparr>"
    by blast
  then have cur1: "sessions m1 (current_session m1) = Some zs" by simp
  have c': "chat rich svc messages (system_prompt (a\<lparr>chat_manager := m1\<rparr>)) (streaming (a\<lparr>chat_manager := m1\<rparr>)) = (Inr response, ev)"
    using c by simp
  have cur1': "sessions (chat_manager (a\<lparr>chat_manager := m1\<rparr>)) (current_session (chat_manager (a\<lparr>chat_manager := m1\<rparr>))) = Some zs"
    using cur1 by simp
  from send_message_try_success [OF c' cur1', of now_assistant w] obtain m2 ys r evs where
    t: "send_message_try rich svc now_assistant w messages (a\<lparr>chat_manager := m1\<rparr>) = (r, a\<lparr>chat_manager := m2\<rparr>, evs)"
    and a2: "add_message ''assistant'' response now_assistant m1 = Inr m2"
    and cur2: "sessions m2 (current_session m2) = Some ys"
    and f: "filter is_save_attempt evs =
            (if length ys mod 4 = 0 then [SaveAttempt (history_file m2) (sessions m2)] else [])"
    and ok: "w = None \<longrightarrow> r = None"
    by auto
  from add_message_Inr [OF a2] cur1 cur2 have ys: "ys = (if 2 * MAX_HISTORY_MESSAGES < length (zs @ [\<lparr>role = ''assistant'', content = response, timestamp = now_assistant\<rparr>])
                   then drop (length (zs @ [\<lparr>role = ''assistant'', content = response, timestamp = now_assistant\<rparr>]) - MAX_HISTORY_MESSAGES)
                          (zs @ [\<lparr>role = ''assistant'', content = response, timestamp = now_assistant\<rparr>])
                   else zs @ [\<lparr>role = ''assistant'', content = response, timestamp = now_assistant\<rparr>])"
    by auto
  have ne: "ys \<noteq> []" unfolding ys by (simp add: MAX_HISTORY_MESSAGES_def)
  have la: "last ys = \<lparr>role = ''assistant'', content = response, timestamp = now_assistant\<rparr>"
    unfolding ys by (simp add: MAX_HISTORY_MESSAGES_def)
  from send_message_catch [OF assms(1) u g t] obtain r' ev' where
    "send_message rich svc now_user now_assistant w user_input a = (r', a\<lparr>chat_manager := m2\<rparr>, ev')"
    "filter is_save_attempt ev' = filter is_save_attempt evs" "r = None \<longrightarrow> r' = None"
    by blast
  with a2 cur2 ne la f ok show ?thesis by auto
qed

theorem send_message_success_witness:
  "let mu = \<lparr>role = ''user'', content = ''one'', timestamp = ''t0''\<rparr>;
       ma = \<lparr>role = ''assistant'', content = ''two'', timestamp = ''t0''\<rparr>;
       a0 = \<lparr>chat_manager = \<lparr>history_file = ''.chat_history'', sessions = [''chat_1'' \<mapsto> [mu, ma]],
                                 current_session = ''chat_1''\<rparr>,
             llm_client = True, system_prompt = ''You are a helpful assistant'', streaming = False\<rparr>;
       svc = \<lparr>create_raises = None, completion_choices = [''Hello!''], stream_items = []\<rparr>
   in \<exists>m2 evs. send_message (map_of []) svc ''t1'' ''t2'' None ''hi'' a0 = (None, a0\<lparr>chat_manager := m2\<rparr>, evs)
        \<and> sessions m2 (current_session m2) =
             Some [mu, ma, \<lparr>role = ''user'', content = ''hi'', timestamp = ''t1''\<rparr>,
                   \<lparr>role = ''assistant'', content = ''Hello!'', timestamp = ''t2''\<rparr>]
        \<and> filter is_save_attempt evs = [SaveAttempt (history_file m2) (sessions m2)]"
proof -
  define mu :: message where "mu = \<lparr>role = ''user'', content = ''one'', timestamp = ''t0''\<rparr>"
  define ma :: message where "ma = \<lparr>role = ''assistant'', content = ''two'', timestamp = ''t0''\<rparr>"
  define m0 where "m0 = \<lparr>history_file = ''.chat_history'', sessions = [''chat_1'' \<mapsto> [mu, ma]],
                                 current_session = ''chat_1''\<rparr>"
  define a0 where "a0 = \<lparr>chat_manager = m0,
             llm_client = True, system_prompt = ''You are a helpful assistant'', streaming = False\<rparr>"
  define svc where "svc = \<lparr>create_raises = None, completion_choices = [''Hello!''], stream_items = []\<rparr>"
  define m1 where "m1 = m0\<lparr>sessions := [''chat_1'' \<mapsto> [mu, ma, \<lparr>role = ''user'', content = ''hi'', timestamp = ''t1''\<rparr>]]\<rparr>"
  define msgs where "msgs = map strip_timestamp [mu, ma, \<lparr>role = ''user'', content = ''hi'', timestamp = ''t1''\<rparr>]"
  have l: "llm_client a0" by (simp add: a0_def)
  have u: "add_message ''user'' ''hi'' ''t1'' (chat_manager a0) = Inr m1"
    by (simp add: a0_def m0_def m1_def add_message_def trim_history_def MAX_HISTORY_MESSAGES_def)
  have g: "get_context m1 = (Inr msgs, m1)"
    by (simp add: m1_def m0_def msgs_def get_context_def slice_last_def MAX_CONTEXT_MESSAGES_def)
  have c: "chat (map_of []) svc msgs (system_prompt a0) (streaming a0) =
             (Inr ''Hello!'', [ApiRequest (\<lparr>role = ''system'', content = ''You are a helpful assistant''\<rparr> # msgs) False])"
    by (simp add: chat_def svc_def a0_def)
  from send_message_success [OF l u g c, of "''t2''" None] obtain m2 ys r evs where
    s: "send_message (map_of []) svc ''t1'' ''t2'' None ''hi'' a0 = (r, a0\<lparr>chat_manager := m2\<rparr>, evs)"
    and a2: "add_message ''assistant'' ''Hello!'' ''t2'' m1 = Inr m2"
    and cur2: "sessions m2 (current_session m2) = Some ys"
    and f: "filter is_save_attempt evs =
              (if length ys mod 4 = 0 then [SaveAttempt (history_file m2) (sessions m2)] else [])"
    and ok: "r = None"
    by auto
  have "add_message ''assistant'' ''Hello!'' ''t2'' m1 =
          Inr (m0\<lparr>sessions := [''chat_1'' \<mapsto> [mu, ma, \<lparr>role = ''user'', content = ''hi'', timestamp = ''t1''\<rparr>,
                   \<lparr>role = ''assistant'', content = ''Hello!'', timestamp = ''t2''\<rparr>]]\<rparr>)"
    by (simp add: m0_def m1_def add_message_def trim_history_def MAX_HISTORY_MESSAGES_def)
  with a2 have "m2 = m0\<lparr>sessions := [''chat_1'' \<mapsto> [mu, ma, \<lparr>role = ''user'', content = ''hi'', timestamp = ''t1''\<rparr>,
                   \<lparr>role = ''assistant'', content = ''Hello!'', timestamp = ''t2''\<rparr>]]\<rparr>"
    by simp
  then have "sessions m2 (current_session m2) = Some [mu, ma, \<lparr>role = ''user'', content = ''hi'', timestamp = ''t1''\<rparr>,
                   \<lparr>role = ''assistant'', content = ''Hello!'', timestamp = ''t2''\<rparr>]"
    by (simp add: m0_def)
  with cur2 have ys: "ys = [mu, ma, \<lparr>role = ''user'', content = ''hi'', timestamp = ''t1''\<rparr>,
                   \<lparr>role = ''assistant'', content = ''Hello!'', timestamp = ''t2''\<rparr>]"
    by simp
  have "send_message (map_of []) svc ''t1'' ''t2'' None ''hi'' a0 = (None, a0\<lparr>chat_manager := m2\<rparr>, evs)
        \<and> sessions m2 (current_session m2) =
             Some [mu, ma, \<lparr>role = ''user'', content = ''hi'', timestamp = ''t1''\<rparr>,
                   \<lparr>role = ''assistant'', content = ''Hello!'', timestamp = ''t2''\<rparr>]
        \<and> filter is_save_attempt evs = [SaveAttempt (history_file m2) (sessions m2)]"
    using s cur2 f ok ys by simp
  then show ?thesis
    unfolding Let_def mu_def [symmetric] ma_def [symmetric] m0_def [symmetric] a0_def [symmetric] svc_def [symmetric]
    by blast
qed





section \<open>Loading the history file\<close>

text \<open>
  C7. The handler of \<open>load_history\<close> names \<^verbatim>\<open>IOError\<close> and \<^verbatim>\<open>json.JSONDecodeError\<close> only. A
  history file that is not valid UTF-8 makes the read raise \<^verbatim>\<open>UnicodeDecodeError\<close>, which
  neither class covers: \<open>load_history\<close> raises it, no fallback mapping is stored, and the
  constructor raises too.
\<close>

theorem load_history_uncaught:
  "load_history True (ReadRaises (UnicodeDecodeError ''invalid start byte''))
     \<lparr>history_file = ''.chat_history'', sessions = map_of [], current_session = []\<rparr>
     = (Some (UnicodeDecodeError ''invalid start byte''),
        \<lparr>history_file = ''.chat_history'', sessions = map_of [], current_session = []\<rparr>, [])
 \<and> fst (ChatManager_init ''.chat_history'' True
            (ReadRaises (UnicodeDecodeError ''invalid start byte'')) ''20240101_120000'')
     = Some (UnicodeDecodeError ''invalid start byte'')"
  by (simp add: ChatManager_init_def)

text \<open>
  The cases the handler does cover: a missing file leaves the mapping as it is (empty, in
  the constructor), and \<^verbatim>\<open>IOError\<close> and \<^verbatim>\<open>JSONDecodeError\<close> are reported and replaced by the
  fallback mapping.
\<close>

lemma load_history_handled:
  "load_history False rd s = (None, s, [])"
  "load_history True (Parsed m) s = (None, s\<lparr>sessions := m\<rparr>, [])"
  "load_history True (ReadRaises (IOError msg)) s =
     (None, s\<lparr>sessions := [''default'' \<mapsto> []]\<rparr>,
      [ConsolePrint (''[red]Error loading history: '' @ msg @ ''[/red]'')])"
  "load_history True (ReadRaises (JSONDecodeError msg)) s =
     (None, s\<lparr>sessions := [''default'' \<mapsto> []]\<rparr>,
      [ConsolePrint (''[red]Error loading history: '' @ msg @ ''[/red]'')])"
  by simp_all

end
